theory Spec2Isabelle
  imports Main
begin

section \<open>The Counter\<close>

text \<open>
  The request handler and both versions of the deferred worker carry their own copy of
  \<^verbatim>\<open>getNumberOfPermutations\<close>:
  \<^verbatim>\<open>
  const minPillsPerDay = 1;
  const maxPillsPerDay = 2;

  function getNumberOfPermutations(numberOfPills) {
    let numberOfPermutations = 0;
    function findPermutations(sum) {
      if (sum > numberOfPills)   return false;
      if (sum === numberOfPills) return numberOfPermutations++;
      for (let i = minPillsPerDay; i <= maxPillsPerDay; i++) {
        findPermutations(sum+i);
      }
    }
    findPermutations(0);
    return numberOfPermutations;
  }
  \<close>
  The inner function's return value is never read; what it does is increment the variable
  \<^verbatim>\<open>numberOfPermutations\<close> of the enclosing call. The model passes that variable through
  the recursion: \<open>findPermutations numberOfPills sumv c\<close> is the value of the variable after
  the call \<^verbatim>\<open>findPermutations(sum)\<close> that started with the variable at \<open>c\<close>.

  The source's numbers are IEEE doubles, exact on the integers up to \<open>2 ^ 53\<close>. The variable
  starts at 0 and only ever grows by \<^verbatim>\<open>++\<close>: below \<open>2 ^ 53\<close> that adds one, and at
  \<open>2 ^ 53\<close> the sum \<open>2 ^ 53 + 1\<close> is no double and rounds back to \<open>2 ^ 53\<close>, where the
  variable stays. The running sum never exceeds the number of pills by more than one and is
  taken as an integer.
\<close>

definition minPillsPerDay :: int where
  "minPillsPerDay = 1"

definition maxPillsPerDay :: int where
  "maxPillsPerDay = 2"

definition increment :: "int \<Rightarrow> int" where
  "increment c = (if c < 2 ^ 53 then c + 1 else c)"

function findPermutations :: "int \<Rightarrow> int \<Rightarrow> int \<Rightarrow> int" where
  "findPermutations numberOfPills sumv numberOfPermutations =
     (if sumv > numberOfPills then numberOfPermutations
      else if sumv = numberOfPills then increment numberOfPermutations
      else fold (\<lambda>i c. findPermutations numberOfPills (sumv + i) c)
             [minPillsPerDay..maxPillsPerDay] numberOfPermutations)"
  by pat_completeness auto
termination
  by (relation "measure (\<lambda>(numberOfPills, sumv, c). nat (numberOfPills - sumv))")
     (auto simp: minPillsPerDay_def)

declare findPermutations.simps [simp del]

definition getNumberOfPermutations :: "int \<Rightarrow> int" where
  "getNumberOfPermutations numberOfPills = findPermutations numberOfPills 0 0"

text \<open>
  The same recursion with the depth of the call stack bounded by a fuel argument:
  \<open>None\<close> when the bound is reached before the recursion has returned.
\<close>

fun findPermutations_fuel :: "nat \<Rightarrow> int \<Rightarrow> int \<Rightarrow> int \<Rightarrow> int option" where
  "findPermutations_fuel 0 numberOfPills sumv numberOfPermutations = None"
| "findPermutations_fuel (Suc k) numberOfPills sumv numberOfPermutations =
     (if sumv > numberOfPills then Some numberOfPermutations
      else if sumv = numberOfPills then Some (increment numberOfPermutations)
      else fold (\<lambda>i r. Option.bind r (findPermutations_fuel k numberOfPills (sumv + i)))
             [minPillsPerDay..maxPillsPerDay] (Some numberOfPermutations))"

text \<open>
  The variable \<^verbatim>\<open>numberOfPermutations\<close> is created by each call of
  \<^verbatim>\<open>getNumberOfPermutations\<close> and captured by the inner function. To speak about what
  a call does to the rest of the program's state, the same code is also modelled over an
  explicit store of number variables: a list of cells, a variable being the index of its cell.
  \<open>findPermutations_st numberOfPills a sumv st\<close> is the store after the call
  \<^verbatim>\<open>findPermutations(sum)\<close>, the variable \<^verbatim>\<open>numberOfPermutations\<close> living in cell \<open>a\<close>.
\<close>

function findPermutations_st :: "int \<Rightarrow> nat \<Rightarrow> int \<Rightarrow> int list \<Rightarrow> int list" where
  "findPermutations_st numberOfPills a sumv st =
     (if sumv > numberOfPills then st
      else if sumv = numberOfPills then st[a := increment (st ! a)]
      else fold (\<lambda>i st'. findPermutations_st numberOfPills a (sumv + i) st')
             [minPillsPerDay..maxPillsPerDay] st)"
  by pat_completeness auto
termination
  by (relation "measure (\<lambda>(numberOfPills, a, sumv, st). nat (numberOfPills - sumv))")
     (auto simp: minPillsPerDay_def)

declare findPermutations_st.simps [simp del]

text \<open>
  A call allocates the cell of its variable behind the cells that exist, sets it to 0, runs
  the recursion and returns the cell's value; the result is that value and the new store.
\<close>

definition getNumberOfPermutations_st :: "int \<Rightarrow> int list \<Rightarrow> int \<times> int list" where
  "getNumberOfPermutations_st numberOfPills st =
     (let a = length st;
          st1 = st @ [0];
          st2 = findPermutations_st numberOfPills a 0 st1
      in (st2 ! a, st2))"

text \<open>
  The stand-alone script \<^verbatim>\<open>src/getNumberOfPermutations.js\<close> (and its copy
  \<^verbatim>\<open>src/test.js\<close>) holds the older form of the function, which returns nothing of use
  and counts in a variable of the module:
  \<^verbatim>\<open>
  function getNumberOfPermutations(totalPills, sum) {
    if (sum > totalPills)   return false;
    if (sum === totalPills) return numberOfPermutations++;
    for (let i = minPillsPerDay; i <= maxPillsPerDay; i++) {
      getNumberOfPermutations(totalPills, sum+i);
    }
  }
  let numberOfPermutations = 0;
  getNumberOfPermutations(totalPills, 0);
  console.log('Total number of ways to take pills = ', numberOfPermutations);
  \<close>
  \<open>script_getNumberOfPermutations totalPills sumv g\<close> is the value of the module's variable
  after a call that started with the variable at \<open>g\<close>.
\<close>

function script_getNumberOfPermutations :: "int \<Rightarrow> int \<Rightarrow> int \<Rightarrow> int" where
  "script_getNumberOfPermutations totalPills sumv numberOfPermutations =
     (if sumv > totalPills then numberOfPermutations
      else if sumv = totalPills then increment numberOfPermutations
      else fold (\<lambda>i g. script_getNumberOfPermutations totalPills (sumv + i) g)
             [minPillsPerDay..maxPillsPerDay] numberOfPermutations)"
  by pat_completeness auto
termination
  by (relation "measure (\<lambda>(totalPills, sumv, g). nat (totalPills - sumv))")
     (auto simp: minPillsPerDay_def)

declare script_getNumberOfPermutations.simps [simp del]

text \<open>
  The sequence the specification names: \<open>Count(0) = 1\<close>,
  \<open>Count(n) = Count(n - 1) + Count(n - 2)\<close> for \<open>n \<ge> 1\<close>, and \<open>Count\<close> of a negative number
  is 0. The Counter is compared with it below.
\<close>

function Count_spec :: "int \<Rightarrow> int" where
  "Count_spec n = (if n < 0 then 0 else if n = 0 then 1
                   else Count_spec (n - 1) + Count_spec (n - 2))"
  by pat_completeness auto
termination
  by (relation "measure (\<lambda>n. nat (n + 2))") auto

declare Count_spec.simps [simp del]

text \<open>
  A linear evaluation of the same sequence, used to compute the values that the exponential
  recursions cannot reach by rewriting.
\<close>

fun count_iter :: "nat \<Rightarrow> int \<Rightarrow> int \<Rightarrow> int" where
  "count_iter 0 a b = a"
| "count_iter (Suc k) a b = count_iter k b (a + b)"

section \<open>Values, requests and responses\<close>

text \<open>
  The values that travel through the handlers: integer numbers, strings, booleans and
  \<^verbatim>\<open>null\<close>, with the truth value a condition gives them.
\<close>

datatype jsval = JNum int | JStr string | JBool bool | JNull

fun truthy :: "jsval \<Rightarrow> bool" where
  "truthy (JNum n) = (n \<noteq> 0)"
| "truthy (JStr s) = (s \<noteq> [])"
| "truthy (JBool b) = b"
| "truthy JNull = False"

text \<open>\<^verbatim>\<open>Number.prototype.toString\<close> on an integer: its decimal digits.\<close>

fun digits :: "nat \<Rightarrow> string" where
  "digits n = (if n < 10 then [''0123456789'' ! n]
               else digits (n div 10) @ [''0123456789'' ! (n mod 10)])"

declare digits.simps [simp del]

definition toString :: "int \<Rightarrow> string" where
  "toString n = (if n < 0 then CHR ''-'' # digits (nat (- n)) else digits (nat n))"

text \<open>
  A call of the \<^verbatim>\<open>request\<close> library: method, URL, and what is sent (the query string of
  the cache lookup, or one of the three JSON bodies). Its outcome is what the library hands
  to the callback: an error, or a status code with the body. Of the body only the result of
  \<^verbatim>\<open>JSON.parse(body).permutations\<close> matters: an exception, or the field's value
  (\<open>None\<close> when the field is absent).
\<close>

datatype http_method = GET | POST | PUT

datatype payload =
    Qs int
  | CacheEntry string string
  | DeferredTask string
  | TaskUpdate string string

datatype http_request = HttpRequest http_method string payload

datatype json = Unparsable string | Parsed "jsval option"

datatype http_outcome = Failed string | Responded int json

text \<open>
  What a Lambda invocation finds around it: the two environment variables, the built-in
  \<^verbatim>\<open>parseInt\<close> (\<open>None\<close> for \<^verbatim>\<open>NaN\<close>), the identifier that \<^verbatim>\<open>UUID()\<close> returns, and
  the outcome of every request it may send.
\<close>

record host =
  cacheUrl :: "string option"
  deferUrl :: "string option"
  parseInt :: "string \<Rightarrow> int option"
  UUID :: string
  Request :: "http_request \<Rightarrow> http_outcome"

text \<open>
  The event of the request handler. API Gateway delivers the query-string parameter as a
  string; a direct invocation may carry a number.
\<close>

datatype param = PNum int | PStr string

record query =
  pills :: "param option"

record event =
  queryStringParameters :: "query option"

text \<open>The response object, its body kept as the object given to \<^verbatim>\<open>JSON.stringify\<close>.\<close>

datatype body =
    Failure string
  | Complete jsval
  | Deferred string string
  | InternalError string

record response =
  statusCode :: int
  body :: body
  headers :: "(string \<times> string) list"
  isBase64Encoded :: bool

definition prepareResponse :: "int \<Rightarrow> body \<Rightarrow> response" where
  "prepareResponse code b =
     \<lparr>statusCode = code, body = b,
      headers = [(''Access-Control-Allow-Origin'', ''*'')], isBase64Encoded = False\<rparr>"

text \<open>
  What a handler does, in order: calls of the Lambda callback (error and result), lines
  written by \<^verbatim>\<open>console.log\<close>, requests sent, calls of the Counter (on a number in the
  request handler, on a string in the worker), and exceptions thrown where nothing catches
  them.
\<close>

datatype effect =
    Callback "string option" "response option"
  | ConsoleLog string
  | Http http_request
  | Invoke int
  | InvokeOnString string
  | Uncaught string

fun is_callback :: "effect \<Rightarrow> bool" where
  "is_callback (Callback e r) = True"
| "is_callback _ = False"

definition callbacks :: "effect list \<Rightarrow> effect list" where
  "callbacks tr = filter is_callback tr"

section \<open>The request handler\<close>

text \<open>
  The three functions that talk to the cache and to the deferred-task service return a
  promise; the model gives the request sent and how the promise settles: \<open>Inl\<close> the
  message it rejects with, \<open>Inr\<close> the value it resolves to.
\<close>

definition getFromCache :: "host \<Rightarrow> string \<Rightarrow> int \<Rightarrow> effect list \<times> (string + jsval)" where
  "getFromCache h cu numberOfPills =
     (let req = HttpRequest GET cu (Qs numberOfPills) in
      ([Http req],
       case Request h req of
         Failed err \<Rightarrow> Inl (''Error: Internal Error Making GET Request to Cache Service - '' @ err)
       | Responded code b \<Rightarrow>
           if code \<noteq> 200
           then Inl ''Error: GET Request to Cache Service failed - [object Object]''
           else (case b of
                   Unparsable e \<Rightarrow> Inl (''Error: Error parsing response from cache - '' @ e)
                 | Parsed None \<Rightarrow> Inr (JBool False)
                 | Parsed (Some permutations) \<Rightarrow>
                     if truthy permutations then Inr permutations else Inr (JBool False))))"

definition saveToCache :: "host \<Rightarrow> string \<Rightarrow> int \<Rightarrow> int \<Rightarrow> effect list \<times> (string + bool)" where
  "saveToCache h cu numberOfPills numberOfPermutations =
     (let req = HttpRequest POST cu
                  (CacheEntry (toString numberOfPills) (toString numberOfPermutations)) in
      ([Http req],
       case Request h req of
         Failed err \<Rightarrow> Inl (''Error: Internal Error Making POST Request to Cache Service - '' @ err)
       | Responded code b \<Rightarrow>
           if code \<noteq> 200
           then Inl ''Error: POST Request to Cache Service failed - [object Object]''
           else Inr True))"

definition deferTask :: "host \<Rightarrow> string \<Rightarrow> int \<Rightarrow> effect list \<times> (string + string)" where
  "deferTask h du numberOfPills =
     (let taskId = UUID h;
          req = HttpRequest POST (du @ ''/'' @ taskId) (DeferredTask (toString numberOfPills)) in
      ([Http req],
       case Request h req of
         Failed err \<Rightarrow> Inl (''Error: Internal Error Making POST Request to Defer Service - '' @ err)
       | Responded code b \<Rightarrow>
           if code \<noteq> 200
           then Inl ''Error: POST Request to Defer Service Failed - [object Object]''
           else Inr taskId))"

text \<open>
  The part of the handler behind the validation: the cache lookup, then the synchronous
  computation for at most 43 pills, the deferral above.
\<close>

definition answer :: "host \<Rightarrow> string \<Rightarrow> string \<Rightarrow> int \<Rightarrow> effect list" where
  "answer h cu du p =
     (if p \<le> 43
      then (let numberOfPermutations = getNumberOfPermutations p in
            [ConsoleLog (''Pills =  '' @ toString p),
             Invoke p,
             ConsoleLog (''permutations =  '' @ toString numberOfPermutations),
             Callback None (Some (prepareResponse 200 (Complete (JNum numberOfPermutations))))]
            @ (case saveToCache h cu p numberOfPermutations of
                 (sent, Inr cached) \<Rightarrow> sent
               | (sent, Inl e) \<Rightarrow> sent @ [ConsoleLog e]))
      else (case deferTask h du p of
              (sent, Inr taskId) \<Rightarrow>
                if taskId \<noteq> []
                then sent @ [Callback None (Some (prepareResponse 202
                               (Deferred (du @ ''/'' @ taskId) taskId)))]
                else sent
            | (sent, Inl e) \<Rightarrow>
                sent @ [Callback (Some e) (Some (prepareResponse 500
                          (InternalError ''Internal Error!'')))]))"

definition lookup :: "host \<Rightarrow> string \<Rightarrow> string \<Rightarrow> int \<Rightarrow> effect list" where
  "lookup h cu du p =
     (case getFromCache h cu p of
        (sent, Inr numberOfPermutations) \<Rightarrow>
          if truthy numberOfPermutations
          then sent @ [Callback None (Some (prepareResponse 200 (Complete numberOfPermutations)))]
          else sent @ answer h cu du p
      | (sent, Inl e) \<Rightarrow> sent @ [ConsoleLog e] @ answer h cu du p)"

definition missing_pills :: effect where
  "missing_pills = Callback None (Some (prepareResponse 400
     (Failure ''You must provide the `pills` querystring parameter!'')))"

definition not_a_number :: effect where
  "not_a_number = Callback None (Some (prepareResponse 400
     (Failure ''Pills must be a valid number!'')))"

definition out_of_range :: effect where
  "out_of_range = Callback None (Some (prepareResponse 400
     (Failure ''Pills must be a number between 1 and !'')))"

definition handler :: "host \<Rightarrow> event \<Rightarrow> effect list" where
  "handler h ev =
     (case cacheUrl h of
        None \<Rightarrow> [Callback (Some ''Error: The `cacheUrl` environment variable was not set'') None]
      | Some [] \<Rightarrow> [Callback (Some ''Error: The `cacheUrl` environment variable was not set'') None]
      | Some (c # cs) \<Rightarrow>
     (case deferUrl h of
        None \<Rightarrow> [Callback (Some ''Error: The `deferUrl` environment variable was not set'') None]
      | Some [] \<Rightarrow> [Callback (Some ''Error: The `deferUrl` environment variable was not set'') None]
      | Some (d # ds) \<Rightarrow>
     (case queryStringParameters ev of
        None \<Rightarrow> [missing_pills]
      | Some q \<Rightarrow>
     (case pills q of
        None \<Rightarrow> [missing_pills]
      | Some (PNum n) \<Rightarrow>
          if n = 0 then [missing_pills]
          else if n < 1 \<or> n > 47 then [out_of_range]
          else lookup h (c # cs) (d # ds) n
      | Some (PStr s) \<Rightarrow>
          if s = [] then [missing_pills]
          else (case parseInt h s of
                  None \<Rightarrow> [not_a_number]
                | Some n \<Rightarrow>
                    if n < 1 \<or> n > 47 then [out_of_range]
                    else lookup h (c # cs) (d # ds) n)))))"

text \<open>
  \<open>asks h ev n\<close>: the event's \<^verbatim>\<open>pills\<close> parameter is the number \<open>n\<close>, or a
  non-empty string that \<^verbatim>\<open>parseInt\<close> reads as \<open>n\<close>.
\<close>

definition asks :: "host \<Rightarrow> event \<Rightarrow> int \<Rightarrow> bool" where
  "asks h ev n =
     (case queryStringParameters ev of
        None \<Rightarrow> False
      | Some q \<Rightarrow>
          (case pills q of
             None \<Rightarrow> False
           | Some (PNum m) \<Rightarrow> m = n
           | Some (PStr s) \<Rightarrow> s \<noteq> [] \<and> parseInt h s = Some n))"

section \<open>The deferred worker\<close>

text \<open>
  A record of the task table's change feed: the kind of change, the task's identifier
  (\<^verbatim>\<open>record.dynamodb.Keys.id.S\<close>) and its number of pills
  (\<^verbatim>\<open>record.dynamodb.NewImage.pills.N\<close>). DynamoDB writes the value of a number attribute
  as a string, so the number of pills reaches the worker as a string, and the worker hands it
  to its Counter as it is.
\<close>

record stream_record =
  eventName :: string
  task_id :: string
  task_pills :: string

record stream_event =
  Records :: "stream_record list"

subsection \<open>The Counter on a string\<close>

text \<open>
  \<^verbatim>\<open>===\<close> compares without conversion: values of different types are different.
\<close>

fun strict_equals :: "jsval \<Rightarrow> jsval \<Rightarrow> bool" where
  "strict_equals (JNum a) (JNum b) = (a = b)"
| "strict_equals (JStr a) (JStr b) = (a = b)"
| "strict_equals (JBool a) (JBool b) = (a = b)"
| "strict_equals JNull JNull = True"
| "strict_equals _ _ = False"

text \<open>
  The worker's copy of the Counter is the code shown at the top, called with a string.
  \<^verbatim>\<open>sum > numberOfPills\<close> converts the string to a number, \<open>t\<close> below, and compares;
  \<^verbatim>\<open>sum === numberOfPills\<close> compares the number \<^verbatim>\<open>sum\<close> with the string itself. When
  the string converts to no number (\<^verbatim>\<open>NaN\<close>) the first comparison is false as well, the
  recursion never reaches an end, and the call returns nothing: \<open>None\<close>. The conversion is
  the language's own and a parameter of the model, \<open>toNumber\<close>.
\<close>

function findPermutations_str :: "int \<Rightarrow> string \<Rightarrow> int \<Rightarrow> int \<Rightarrow> int" where
  "findPermutations_str t numberOfPills sumv numberOfPermutations =
     (if sumv > t then numberOfPermutations
      else if strict_equals (JNum sumv) (JStr numberOfPills) then increment numberOfPermutations
      else fold (\<lambda>i c. findPermutations_str t numberOfPills (sumv + i) c)
             [minPillsPerDay..maxPillsPerDay] numberOfPermutations)"
  by pat_completeness auto
termination
  by (relation "measure (\<lambda>(t, numberOfPills, sumv, c). nat (t + 1 - sumv))")
     (auto simp: minPillsPerDay_def)

declare findPermutations_str.simps [simp del]

definition getNumberOfPermutations_str :: "(string \<Rightarrow> int option) \<Rightarrow> string \<Rightarrow> int option" where
  "getNumberOfPermutations_str toNumber numberOfPills =
     (case toNumber numberOfPills of
        None \<Rightarrow> None
      | Some t \<Rightarrow> Some (findPermutations_str t numberOfPills 0 0))"

subsection \<open>Second version\<close>

definition updateTask ::
  "host \<Rightarrow> string \<Rightarrow> string \<Rightarrow> string \<Rightarrow> int option \<Rightarrow> effect list \<times> (string + bool)" where
  "updateTask h du taskId status permutations =
     (let req = HttpRequest PUT (du @ ''/'' @ taskId)
                  (TaskUpdate status
                     (case permutations of
                        None \<Rightarrow> ''0''
                      | Some p \<Rightarrow> if p \<noteq> 0 then toString p else ''0'')) in
      ([Http req],
       case Request h req of
         Failed err \<Rightarrow> Inl (''Error: Internal Error Making POST Request to Defer Service - '' @ err)
       | Responded code b \<Rightarrow>
           if code \<noteq> 200
           then Inl ''Error: POST Request to Defer Service Failed - [object Object]''
           else Inr True))"

text \<open>
  The worker's own \<^verbatim>\<open>saveToCache\<close>, whose first argument is the string:
  \<^verbatim>\<open>numberOfPills.toString()\<close> is the string itself.
\<close>

definition worker_saveToCache ::
  "host \<Rightarrow> string \<Rightarrow> string \<Rightarrow> int \<Rightarrow> effect list \<times> (string + bool)" where
  "worker_saveToCache h cu numberOfPills numberOfPermutations =
     (let req = HttpRequest POST cu (CacheEntry numberOfPills (toString numberOfPermutations)) in
      ([Http req],
       case Request h req of
         Failed err \<Rightarrow> Inl (''Error: Internal Error Making POST Request to Cache Service - '' @ err)
       | Responded code b \<Rightarrow>
           if code \<noteq> 200
           then Inl ''Error: POST Request to Cache Service failed - [object Object]''
           else Inr True))"

text \<open>
  What the worker does for one record of the batch. The records are processed by
  asynchronous functions running side by side, so the model keeps one list of effects for
  each record and fixes no order between the lists. Where the Counter returns nothing, the
  engine ends the recursion with a \<^verbatim>\<open>RangeError\<close> that no \<^verbatim>\<open>try\<close> encloses: the
  function of that record stops there, and the handler, waiting for all of them, never
  reaches its callback.
\<close>

definition processRecord ::
  "host \<Rightarrow> (string \<Rightarrow> int option) \<Rightarrow> string \<Rightarrow> string \<Rightarrow> stream_record \<Rightarrow> effect list" where
  "processRecord h toNumber cu du r =
     (if eventName r = ''INSERT''
      then (case updateTask h du (task_id r) ''IN_PROGRESS'' None of
              (sent, Inr updateTaskStatus) \<Rightarrow> sent
            | (sent, Inl e) \<Rightarrow> sent @ [ConsoleLog e])
           @ [InvokeOnString (task_pills r)]
           @ (case getNumberOfPermutations_str toNumber (task_pills r) of
                None \<Rightarrow> [Uncaught ''RangeError: Maximum call stack size exceeded'']
              | Some numberOfPermutations \<Rightarrow>
                  (case updateTask h du (task_id r) ''COMPLETE'' (Some numberOfPermutations) of
                     (sent, Inr completeTask) \<Rightarrow> sent
                   | (sent, Inl e) \<Rightarrow> sent @ [ConsoleLog e])
                  @ (case worker_saveToCache h cu (task_pills r) numberOfPermutations of
                       (sent, Inr cached) \<Rightarrow> sent
                     | (sent, Inl e) \<Rightarrow> sent @ [ConsoleLog e]))
      else [])"

definition processed :: "(string \<Rightarrow> int option) \<Rightarrow> stream_record \<Rightarrow> bool" where
  "processed toNumber r =
     (eventName r \<noteq> ''INSERT'' \<or> getNumberOfPermutations_str toNumber (task_pills r) \<noteq> None)"

definition worker_handler ::
  "host \<Rightarrow> (string \<Rightarrow> int option) \<Rightarrow> stream_event \<Rightarrow> effect list list \<times> effect list" where
  "worker_handler h toNumber ev =
     (case cacheUrl h of
        None \<Rightarrow> ([], [Callback (Some ''Error: The `cacheUrl` environment variable was not set'') None])
      | Some [] \<Rightarrow> ([], [Callback (Some ''Error: The `cacheUrl` environment variable was not set'') None])
      | Some (c # cs) \<Rightarrow>
     (case deferUrl h of
        None \<Rightarrow> ([], [Callback (Some ''Error: The `deferUrl` environment variable was not set'') None])
      | Some [] \<Rightarrow> ([], [Callback (Some ''Error: The `deferUrl` environment variable was not set'') None])
      | Some (d # ds) \<Rightarrow>
          (map (processRecord h toNumber (c # cs) (d # ds)) (Records ev),
           if list_all (processed toNumber) (Records ev) then [Callback None None] else [])))"

subsection \<open>First version\<close>

text \<open>
  The language rejects a function whose body declares, with \<^verbatim>\<open>let\<close> or \<^verbatim>\<open>const\<close> at
  its top level, a name that is also one of its parameters; a file holding such a function
  is refused as a whole when it is loaded, and none of its code runs. For this check a
  function is its name, its parameters and the names its body declares so.
\<close>

record function_decl =
  fname :: string
  parameters :: "string list"
  lexically_declared :: "string list"

definition early_error :: "function_decl \<Rightarrow> bool" where
  "early_error f = list_ex (\<lambda>x. x \<in> set (lexically_declared f)) (parameters f)"

definition loads :: "function_decl list \<Rightarrow> bool" where
  "loads fs = list_all (\<lambda>f. \<not> early_error f) fs"

text \<open>
  The functions of the first version of the worker, in the order of the file: the handler,
  the function given to \<^verbatim>\<open>map\<close>, the Counter and its inner function, \<^verbatim>\<open>saveToCache\<close>
  and \<^verbatim>\<open>updateTask\<close>, each of the last two with the callback it gives to \<^verbatim>\<open>Request\<close>.
  Its \<^verbatim>\<open>updateTask\<close> begins
  \<^verbatim>\<open>
  async function updateTask(id, status, permutations) {
    const id = UUID();
  \<close>
  The second version has the same functions, and its \<^verbatim>\<open>updateTask\<close> declares nothing.
\<close>

definition worker_v1_functions :: "function_decl list" where
  "worker_v1_functions =
     [\<lparr>fname = ''handler'', parameters = [''event'', ''context'', ''callback''],
       lexically_declared = []\<rparr>,
      \<lparr>fname = ''map'', parameters = [''record''], lexically_declared = []\<rparr>,
      \<lparr>fname = ''getNumberOfPermutations'', parameters = [''numberOfPills''],
       lexically_declared = [''numberOfPermutations'']\<rparr>,
      \<lparr>fname = ''findPermutations'', parameters = [''sum''], lexically_declared = []\<rparr>,
      \<lparr>fname = ''saveToCache'', parameters = [''numberOfPills'', ''numberOfPermutations''],
       lexically_declared = []\<rparr>,
      \<lparr>fname = ''saveToCache callback'', parameters = [''err'', ''res'', ''body''],
       lexically_declared = []\<rparr>,
      \<lparr>fname = ''updateTask'', parameters = [''id'', ''status'', ''permutations''],
       lexically_declared = [''id'']\<rparr>,
      \<lparr>fname = ''updateTask callback'', parameters = [''err'', ''res'', ''body''],
       lexically_declared = []\<rparr>]"

definition worker_v2_functions :: "function_decl list" where
  "worker_v2_functions =
     [\<lparr>fname = ''handler'', parameters = [''event'', ''context'', ''callback''],
       lexically_declared = [''processed'']\<rparr>,
      \<lparr>fname = ''map'', parameters = [''record''], lexically_declared = []\<rparr>,
      \<lparr>fname = ''getNumberOfPermutations'', parameters = [''numberOfPills''],
       lexically_declared = [''numberOfPermutations'']\<rparr>,
      \<lparr>fname = ''findPermutations'', parameters = [''sum''], lexically_declared = []\<rparr>,
      \<lparr>fname = ''saveToCache'', parameters = [''numberOfPills'', ''numberOfPermutations''],
       lexically_declared = []\<rparr>,
      \<lparr>fname = ''saveToCache promise'', parameters = [''resolve'', ''reject''],
       lexically_declared = []\<rparr>,
      \<lparr>fname = ''saveToCache callback'', parameters = [''err'', ''res'', ''body''],
       lexically_declared = []\<rparr>,
      \<lparr>fname = ''updateTask'', parameters = [''id'', ''status'', ''permutations''],
       lexically_declared = []\<rparr>,
      \<lparr>fname = ''updateTask promise'', parameters = [''resolve'', ''reject''],
       lexically_declared = []\<rparr>,
      \<lparr>fname = ''updateTask callback'', parameters = [''err'', ''res'', ''body''],
       lexically_declared = []\<rparr>]"

text \<open>
  An invocation of the first version: what the statements of its handler do if the file
  loads, nothing otherwise.
\<close>

definition worker_handler_v1 ::
  "(stream_event \<Rightarrow> effect list list \<times> effect list) \<Rightarrow> stream_event \<Rightarrow>
     effect list list \<times> effect list" where
  "worker_handler_v1 statements ev =
     (if loads worker_v1_functions then statements ev else ([], []))"

section \<open>Example hosts and events\<close>

text \<open>
  A host whose two services are configured and answer the cache lookup, the cache entry and
  the requests to the task service with the three given outcomes; an event asking for a
  number of pills as API Gateway delivers it; the outcome of a request that succeeded with
  nothing of interest in its body. \<open>decimal\<close> reads the few strings of digits the examples
  use, and stands for \<^verbatim>\<open>parseInt\<close> and for the conversion of a string to a number.
\<close>

definition decimal :: "string \<Rightarrow> int option" where
  "decimal s =
     (if s = ''0'' then Some 0 else if s = ''5'' then Some 5 else if s = ''43'' then Some 43
      else if s = ''44'' then Some 44 else if s = ''48'' then Some 48 else None)"

definition ok :: http_outcome where
  "ok = Responded 200 (Parsed None)"

definition example_host :: "http_outcome \<Rightarrow> http_outcome \<Rightarrow> http_outcome \<Rightarrow> host" where
  "example_host lookup_outcome entry_outcome task_outcome =
     \<lparr>cacheUrl = Some ''https://cache'', deferUrl = Some ''https://defer'',
      parseInt = decimal, UUID = ''6c84fb90-12c4-11e1-840d-7b25c5ee775a'',
      Request = (\<lambda>req. case req of
                   HttpRequest GET u b \<Rightarrow> lookup_outcome
                 | HttpRequest POST u (CacheEntry k v) \<Rightarrow> entry_outcome
                 | HttpRequest m u b \<Rightarrow> task_outcome)\<rparr>"

definition example_event :: "string \<Rightarrow> event" where
  "example_event s = \<lparr>queryStringParameters = Some \<lparr>pills = Some (PStr s)\<rparr>\<rparr>"

section \<open>Properties of the Counter\<close>

lemma pills_per_day: "[minPillsPerDay..maxPillsPerDay] = [1, 2]"
  by (simp add: minPillsPerDay_def maxPillsPerDay_def upto.simps)

lemma findPermutations_over: "n < s \<Longrightarrow> findPermutations n s c = c"
  by (simp add: findPermutations.simps)

lemma findPermutations_hit: "findPermutations n n c = increment c"
  by (simp add: findPermutations.simps)

lemma findPermutations_step:
  "s < n \<Longrightarrow> findPermutations n s c = findPermutations n (s + 2) (findPermutations n (s + 1) c)"
  by (subst findPermutations.simps) (simp add: pills_per_day)

lemma Count_spec_neg: "n < 0 \<Longrightarrow> Count_spec n = 0"
  by (simp add: Count_spec.simps)

lemma Count_spec_0: "Count_spec 0 = 1"
  by (simp add: Count_spec.simps)

lemma Count_spec_rec: "1 \<le> n \<Longrightarrow> Count_spec n = Count_spec (n - 1) + Count_spec (n - 2)"
  by (subst Count_spec.simps) simp

lemma Count_spec_1: "Count_spec 1 = 1"
  by (simp add: Count_spec_rec Count_spec_0 Count_spec_neg)

lemma Count_spec_nonneg: "0 \<le> Count_spec n"
proof (induction "nat (n + 2)" arbitrary: n rule: less_induct)
  case less
  show ?case
  proof (cases "1 \<le> n")
    case True
    then have "0 \<le> Count_spec (n - 1)" and "0 \<le> Count_spec (n - 2)"
      by (auto intro!: less.hyps)
    then show ?thesis using True by (simp add: Count_spec_rec)
  next
    case False
    then show ?thesis by (simp add: Count_spec.simps)
  qed
qed

lemma increment_min: "c \<le> 2 ^ 53 \<Longrightarrow> increment c = min (2 ^ 53) (c + 1)"
  by (simp add: increment_def min_def)

lemma findPermutations_eq:
  "0 \<le> c \<Longrightarrow> c \<le> 2 ^ 53 \<Longrightarrow>
     findPermutations n s c = min (2 ^ 53) (c + Count_spec (n - s))"
proof (induction "nat (n - s)" arbitrary: s c rule: less_induct)
  case less
  consider "n < s" | "s = n" | "s < n" by linarith
  then show ?case
  proof cases
    case 1
    then show ?thesis using less.prems by (simp add: findPermutations_over Count_spec_neg)
  next
    case 2
    then show ?thesis
      using less.prems by (simp add: findPermutations_hit Count_spec_0 increment_min)
  next
    case 3
    let ?A = "Count_spec (n - (s + 1))" and ?B = "Count_spec (n - (s + 2))"
    have A: "0 \<le> ?A" and B: "0 \<le> ?B" by (rule Count_spec_nonneg)+
    have one: "findPermutations n (s + 1) c = min (2 ^ 53) (c + ?A)"
      using 3 less.prems by (intro less.hyps) simp_all
    have two: "findPermutations n (s + 2) (min (2 ^ 53) (c + ?A)) =
        min (2 ^ 53) (min (2 ^ 53) (c + ?A) + ?B)"
      using 3 less.prems A by (intro less.hyps) simp_all
    have rec: "Count_spec (n - s) = ?A + ?B"
      using 3 Count_spec_rec [of "n - s"] by (simp add: algebra_simps)
    have "findPermutations n s c = min (2 ^ 53) (min (2 ^ 53) (c + ?A) + ?B)"
      using 3 by (simp only: findPermutations_step one two)
    also have "\<dots> = min (2 ^ 53) (c + (?A + ?B))"
      using B by (simp add: min_def)
    finally show ?thesis by (simp only: rec)
  qed
qed

lemma getNumberOfPermutations_eq: "getNumberOfPermutations n = min (2 ^ 53) (Count_spec n)"
  using findPermutations_eq [of 0 n 0] by (simp add: getNumberOfPermutations_def)

lemma count_iter_pair:
  "0 \<le> n \<Longrightarrow> count_iter k (Count_spec n) (Count_spec (n + 1)) = Count_spec (n + int k)"
proof (induction k arbitrary: n)
  case 0
  then show ?case by simp
next
  case (Suc k)
  have "Count_spec (n + 1 + 1) = Count_spec (n + 1 + 1 - 1) + Count_spec (n + 1 + 1 - 2)"
    using Suc.prems by (intro Count_spec_rec) simp
  moreover have "n + 1 + 1 - 1 = n + 1" and "n + 1 + 1 - 2 = n"
    by simp_all
  ultimately have next_pair: "Count_spec n + Count_spec (n + 1) = Count_spec (n + 1 + 1)"
    by (simp only: add.commute)
  have "count_iter (Suc k) (Count_spec n) (Count_spec (n + 1)) =
      count_iter k (Count_spec (n + 1)) (Count_spec (n + 1 + 1))"
    by (simp only: count_iter.simps next_pair)
  also have "\<dots> = Count_spec (n + 1 + int k)"
    using Suc.prems by (intro Suc.IH) simp
  also have "n + 1 + int k = n + int (Suc k)"
    by simp
  finally show ?case .
qed

lemma Count_spec_iter: "0 \<le> n \<Longrightarrow> Count_spec n = count_iter (nat n) 1 1"
  using count_iter_pair [of 0 "nat n"] by (simp add: Count_spec_0 Count_spec_1)

lemma Count_spec_values:
  "Count_spec 76 = 5527939700884757" "Count_spec 77 = 8944394323791464"
  "Count_spec 78 = 14472334024676221"
  by (simp_all add: Count_spec_iter eval_nat_numeral)

lemma Count_spec_mono_step: "0 \<le> n \<Longrightarrow> Count_spec n \<le> Count_spec (n + 1)"
  using Count_spec_rec [of "n + 1"] Count_spec_nonneg [of "n - 1"] by simp

lemma Count_spec_mono: "0 \<le> m \<Longrightarrow> Count_spec m \<le> Count_spec (m + int k)"
proof (induction k)
  case 0
  then show ?case by simp
next
  case (Suc k)
  have "Count_spec (m + int k) \<le> Count_spec (m + int k + 1)"
    using Suc.prems by (intro Count_spec_mono_step) simp
  moreover have "m + int k + 1 = m + int (Suc k)"
    by simp
  ultimately show ?case
    using Suc.IH [OF Suc.prems] by (simp only: order_trans)
qed

lemma Count_spec_le_77: "0 \<le> n \<Longrightarrow> n \<le> 77 \<Longrightarrow> Count_spec n \<le> 8944394323791464"
  using Count_spec_mono [of n "nat (77 - n)"] by (simp add: Count_spec_values)

lemma Count_spec_ge_78: "78 \<le> n \<Longrightarrow> 14472334024676221 \<le> Count_spec n"
  using Count_spec_mono [of 78 "nat (n - 78)"] by (simp add: Count_spec_values)

lemma getNumberOfPermutations_exact:
  "0 \<le> n \<Longrightarrow> n \<le> 77 \<Longrightarrow> getNumberOfPermutations n = Count_spec n"
  using Count_spec_le_77 [of n] by (simp add: getNumberOfPermutations_eq)

lemma getNumberOfPermutations_saturated:
  "78 \<le> n \<Longrightarrow> getNumberOfPermutations n = 2 ^ 53"
  using Count_spec_ge_78 [of n] by (simp add: getNumberOfPermutations_eq)

lemma getNumberOfPermutations_0: "getNumberOfPermutations 0 = 1"
  by (simp add: getNumberOfPermutations_exact Count_spec_0)

lemma getNumberOfPermutations_1: "getNumberOfPermutations 1 = 1"
  by (simp add: getNumberOfPermutations_exact Count_spec_1)

lemma getNumberOfPermutations_rec:
  assumes "2 \<le> n" "n \<le> 77"
  shows "getNumberOfPermutations n = getNumberOfPermutations (n - 1) + getNumberOfPermutations (n - 2)"
  using assms by (simp add: getNumberOfPermutations_exact Count_spec_rec)

lemma getNumberOfPermutations_neg: "n < 0 \<Longrightarrow> getNumberOfPermutations n = 0"
  by (simp add: getNumberOfPermutations_def findPermutations_over)

lemma getNumberOfPermutations_iter:
  "0 \<le> n \<Longrightarrow> n \<le> 77 \<Longrightarrow> getNumberOfPermutations n = count_iter (nat n) 1 1"
  by (simp add: getNumberOfPermutations_exact Count_spec_iter)

lemma getNumberOfPermutations_pos: "0 \<le> n \<Longrightarrow> 1 \<le> getNumberOfPermutations n"
proof -
  assume "0 \<le> n"
  then have "Count_spec 0 \<le> Count_spec (0 + int (nat n))"
    by (intro Count_spec_mono) simp
  then show ?thesis
    using \<open>0 \<le> n\<close> by (simp add: getNumberOfPermutations_eq Count_spec_0)
qed

lemma getNumberOfPermutations_safe:
  assumes "0 \<le> n" "n \<le> 77"
  shows "getNumberOfPermutations n < 2 ^ 53"
  using Count_spec_le_77 [OF assms] by (simp add: getNumberOfPermutations_exact assms)

lemma getNumberOfPermutations_values:
  "getNumberOfPermutations 2 = 2" "getNumberOfPermutations 3 = 3"
  "getNumberOfPermutations 4 = 5" "getNumberOfPermutations 5 = 8"
  "getNumberOfPermutations 6 = 13" "getNumberOfPermutations 43 = 701408733"
  "getNumberOfPermutations 44 = 1134903170" "getNumberOfPermutations 47 = 4807526976"
  "getNumberOfPermutations 76 = 5527939700884757"
  "getNumberOfPermutations 77 = 8944394323791464"
  "getNumberOfPermutations 78 = 9007199254740992"
  by (simp_all add: getNumberOfPermutations_iter getNumberOfPermutations_saturated eval_nat_numeral)

lemma findPermutations_fuel_enough:
  "nat (n - s) + 1 \<le> k \<Longrightarrow> findPermutations_fuel k n s c = Some (findPermutations n s c)"
proof (induction k arbitrary: s c)
  case 0
  then show ?case by simp
next
  case (Suc k)
  consider "n < s" | "s = n" | "s < n" by linarith
  then show ?case
  proof cases
    case 1
    then show ?thesis by (simp add: findPermutations_over)
  next
    case 2
    then show ?thesis by (simp add: findPermutations_hit)
  next
    case 3
    have one: "findPermutations_fuel k n (s + 1) c = Some (findPermutations n (s + 1) c)"
      using 3 Suc.prems by (intro Suc.IH) linarith
    have two: "findPermutations_fuel k n (s + 2) d = Some (findPermutations n (s + 2) d)" for d
      using 3 Suc.prems by (intro Suc.IH) linarith
    show ?thesis
      using 3 by (simp add: pills_per_day one two findPermutations_step)
  qed
qed

lemma findPermutations_st_over: "n < s \<Longrightarrow> findPermutations_st n a s st = st"
  by (simp add: findPermutations_st.simps)

lemma findPermutations_st_hit: "findPermutations_st n a n st = st[a := increment (st ! a)]"
  by (simp add: findPermutations_st.simps)

lemma findPermutations_st_step:
  "s < n \<Longrightarrow> findPermutations_st n a s st =
     findPermutations_st n a (s + 2) (findPermutations_st n a (s + 1) st)"
  by (subst findPermutations_st.simps) (simp add: pills_per_day)

lemma findPermutations_st_cell:
  "a < length st \<Longrightarrow> findPermutations_st n a s st = st[a := findPermutations n s (st ! a)]"
proof (induction "nat (n - s)" arbitrary: s st rule: less_induct)
  case less
  consider "n < s" | "s = n" | "s < n" by linarith
  then show ?case
  proof cases
    case 1
    then show ?thesis by (simp add: findPermutations_st_over findPermutations_over)
  next
    case 2
    then show ?thesis by (simp add: findPermutations_st_hit findPermutations_hit)
  next
    case 3
    have one: "findPermutations_st n a (s + 1) st = st[a := findPermutations n (s + 1) (st ! a)]"
      using 3 less.prems by (intro less.hyps) simp_all
    have two: "findPermutations_st n a (s + 2) st' = st'[a := findPermutations n (s + 2) (st' ! a)]"
      if "a < length st'" for st'
      using 3 that by (intro less.hyps) simp_all
    show ?thesis
      using 3 less.prems
      by (simp add: findPermutations_st_step findPermutations_step one two)
  qed
qed

lemma getNumberOfPermutations_st_eq:
  "getNumberOfPermutations_st n st = (getNumberOfPermutations n, st @ [getNumberOfPermutations n])"
  by (simp add: getNumberOfPermutations_st_def Let_def findPermutations_st_cell
      getNumberOfPermutations_def)

lemma script_getNumberOfPermutations_eq:
  "script_getNumberOfPermutations n s g = findPermutations n s g"
proof (induction "nat (n - s)" arbitrary: s g rule: less_induct)
  case less
  consider "n < s" | "s = n" | "s < n" by linarith
  then show ?case
  proof cases
    case 1
    then show ?thesis
      by (simp add: script_getNumberOfPermutations.simps findPermutations_over)
  next
    case 2
    then show ?thesis
      by (simp add: script_getNumberOfPermutations.simps findPermutations_hit)
  next
    case 3
    have one: "script_getNumberOfPermutations n (s + 1) e = findPermutations n (s + 1) e" for e
      using 3 by (intro less.hyps) simp
    have two: "script_getNumberOfPermutations n (s + 2) e = findPermutations n (s + 2) e" for e
      using 3 by (intro less.hyps) simp
    have "script_getNumberOfPermutations n s g =
        script_getNumberOfPermutations n (s + 2) (script_getNumberOfPermutations n (s + 1) g)"
      using 3 by (subst script_getNumberOfPermutations.simps) (simp add: pills_per_day)
    then show ?thesis
      using 3 by (simp add: one two findPermutations_step)
  qed
qed

lemma script_first: "script_getNumberOfPermutations n 0 0 = getNumberOfPermutations n"
  by (simp add: script_getNumberOfPermutations_eq getNumberOfPermutations_def)

lemma Count_spec_le_47: "0 \<le> n \<Longrightarrow> n \<le> 47 \<Longrightarrow> Count_spec n \<le> 4807526976"
proof -
  assume "0 \<le> n" "n \<le> 47"
  then have "Count_spec n \<le> Count_spec (n + int (nat (47 - n)))"
    by (intro Count_spec_mono)
  moreover have "Count_spec 47 = 4807526976"
    by (simp add: Count_spec_iter eval_nat_numeral)
  ultimately show ?thesis using \<open>n \<le> 47\<close> by simp
qed

lemma script_second:
  assumes "0 \<le> n" "n \<le> 47"
  shows "script_getNumberOfPermutations n 0 (getNumberOfPermutations n) =
     2 * getNumberOfPermutations n"
proof -
  have le: "Count_spec n \<le> 4807526976" using assms by (rule Count_spec_le_47)
  have nonneg: "0 \<le> Count_spec n" by (rule Count_spec_nonneg)
  have g: "getNumberOfPermutations n = Count_spec n"
    using assms by (intro getNumberOfPermutations_exact) simp_all
  have "findPermutations n 0 (Count_spec n) = min (2 ^ 53) (Count_spec n + Count_spec (n - 0))"
    using le nonneg by (intro findPermutations_eq) simp_all
  then show ?thesis
    using le nonneg by (simp add: script_getNumberOfPermutations_eq g)
qed

section \<open>The claims about the Counter\<close>

text \<open>
  C1, amended. For every integer \<open>n\<close> from 0 to 77 the Counter of the request handler
  returns the Fibonacci sequence shifted by one: 1 for \<open>n = 0\<close> and for \<open>n = 1\<close>, and for
  every \<open>n\<close> from 2 to 77 the sum of its results on \<open>n - 1\<close> and \<open>n - 2\<close>; in
  particular 2, 3, 5 and 8 for \<open>n = 2, 3, 4, 5\<close>.
\<close>

theorem counter_fibonacci:
  "getNumberOfPermutations 0 = 1 \<and> getNumberOfPermutations 1 = 1 \<and>
   (\<forall>n. 2 \<le> n \<and> n \<le> 77 \<longrightarrow> getNumberOfPermutations n =
      getNumberOfPermutations (n - 1) + getNumberOfPermutations (n - 2)) \<and>
   getNumberOfPermutations 2 = 2 \<and> getNumberOfPermutations 3 = 3 \<and>
   getNumberOfPermutations 4 = 5 \<and> getNumberOfPermutations 5 = 8"
  using getNumberOfPermutations_0 getNumberOfPermutations_1 getNumberOfPermutations_rec
    getNumberOfPermutations_values(1-4)
  by blast

theorem counter_fibonacci_witness:
  "(2::int) \<le> 77 \<and> (77::int) \<le> 77 \<and>
   getNumberOfPermutations 77 = getNumberOfPermutations 76 + getNumberOfPermutations 75 \<and>
   getNumberOfPermutations 77 = 8944394323791464"
proof -
  have "\<forall>n. 2 \<le> n \<and> n \<le> 77 \<longrightarrow> getNumberOfPermutations n =
      getNumberOfPermutations (n - 1) + getNumberOfPermutations (n - 2)"
    using counter_fibonacci by (elim conjE)
  from spec [OF this, of 77] have "getNumberOfPermutations 77 =
      getNumberOfPermutations 76 + getNumberOfPermutations 75"
    by simp
  then show ?thesis
    by (simp add: getNumberOfPermutations_values)
qed

text \<open>
  C1 as stated gives the recurrence for every \<open>n \<ge> 2\<close>. At \<open>n = 78\<close> the sum of the two
  results below is 14472334024676221, more than \<open>2 ^ 53 = 9007199254740992\<close>, where the
  variable of the Counter stays.
\<close>

theorem counter_fibonacci_counterexample:
  "getNumberOfPermutations 78 = 9007199254740992 \<and>
   getNumberOfPermutations (78 - 1) + getNumberOfPermutations (78 - 2) = 14472334024676221 \<and>
   getNumberOfPermutations 78 \<noteq> getNumberOfPermutations (78 - 1) + getNumberOfPermutations (78 - 2)"
  by (simp add: getNumberOfPermutations_values)

text \<open>
  C9. For every non-negative total the recursion over the running sum \<open>s\<close> (which stops
  when \<open>s\<close> equals or exceeds the total and otherwise recurses on \<open>s + 1\<close> and
  \<open>s + 2\<close>) terminates: a call stack of depth \<open>total - s + 1\<close> is enough for the call
  at \<open>s\<close> to return, and it returns the value of the total function \<open>findPermutations\<close>,
  whose termination is proved with the measure \<open>total - s\<close>.
\<close>

theorem counter_terminates:
  "0 \<le> total_pills \<Longrightarrow> nat (total_pills - s) + 1 \<le> k \<Longrightarrow>
     findPermutations_fuel k total_pills s c = Some (findPermutations total_pills s c)"
  by (rule findPermutations_fuel_enough)

theorem counter_terminates_witness:
  "(0::int) \<le> 5 \<and> nat (5 - 0) + 1 \<le> (6::nat) \<and>
   findPermutations_fuel 6 5 0 0 = Some (getNumberOfPermutations 5) \<and>
   getNumberOfPermutations 5 = 8"
  using counter_terminates [of 5 0 6 0]
  by (simp add: getNumberOfPermutations_def [symmetric] getNumberOfPermutations_values)

text \<open>
  C8, amended. For every \<open>n\<close> from 1 to 47 the Counter of the handlers, which counts in a
  variable of its own call, is pure, deterministic and free of side effects: whatever store
  \<open>st\<close> earlier calls have left, a call returns the same value, a function of \<open>n\<close> alone;
  it leaves every cell that existed before the call as it was; and a second call made after
  the first, in the store the first has left, returns the same value. The function of the
  stand-alone script counts in a variable of the module instead: called once with the
  variable at 0, as the script does, it leaves the same count there, and called again it
  leaves twice the count.
\<close>

theorem counter_pure:
  "1 \<le> n \<Longrightarrow> n \<le> 47 \<Longrightarrow>
     fst (getNumberOfPermutations_st n st) = getNumberOfPermutations n \<and>
     take (length st) (snd (getNumberOfPermutations_st n st)) = st \<and>
     fst (getNumberOfPermutations_st n (snd (getNumberOfPermutations_st n st))) =
       fst (getNumberOfPermutations_st n st) \<and>
     script_getNumberOfPermutations n 0 0 = getNumberOfPermutations n \<and>
     script_getNumberOfPermutations n 0 (script_getNumberOfPermutations n 0 0) =
       2 * getNumberOfPermutations n"
  by (simp add: getNumberOfPermutations_st_eq script_first script_second)

theorem counter_pure_witness:
  "(1::int) \<le> 5 \<and> (5::int) \<le> 47 \<and>
   fst (getNumberOfPermutations_st 5 [7, 9]) = 8 \<and>
   take 2 (snd (getNumberOfPermutations_st 5 [7, 9])) = [7, 9] \<and>
   fst (getNumberOfPermutations_st 5 (snd (getNumberOfPermutations_st 5 [7, 9]))) = 8"
  using counter_pure [of 5 "[7, 9]"]
  by (simp add: getNumberOfPermutations_values numeral_2_eq_2)

text \<open>
  C8 as stated covers the function of \<^verbatim>\<open>src/getNumberOfPermutations.js\<close> too. Two calls
  of it in sequence for 5 pills leave first 8 and then 16 in the module's variable.
\<close>

theorem counter_pure_counterexample:
  "script_getNumberOfPermutations 5 0 0 = 8 \<and>
   script_getNumberOfPermutations 5 0 (script_getNumberOfPermutations 5 0 0) = 16"
  using script_second [of 5] by (simp add: script_first getNumberOfPermutations_values)

section \<open>Properties of the request handler\<close>

lemma handler_valid:
  assumes "cacheUrl h = Some cu" "cu \<noteq> []" "deferUrl h = Some du" "du \<noteq> []"
    and "asks h ev n" "1 \<le> n" "n \<le> 47"
  shows "handler h ev = lookup h cu du n"
  using assms
  by (auto simp: handler_def asks_def split: option.splits param.splits list.splits)

lemma handler_invalid:
  assumes "cacheUrl h = Some cu" "cu \<noteq> []" "deferUrl h = Some du" "du \<noteq> []"
    and "asks h ev n" "n < 1 \<or> 47 < n"
  shows "handler h ev = [missing_pills] \<or> handler h ev = [out_of_range]"
  using assms
  by (auto simp: handler_def asks_def split: option.splits param.splits list.splits)

lemma getFromCache_sent: "fst (getFromCache h cu n) = [Http (HttpRequest GET cu (Qs n))]"
  by (simp add: getFromCache_def Let_def)

lemma getFromCache_resolves:
  "snd (getFromCache h cu n) = Inr v \<Longrightarrow> v = JBool False \<or> truthy v"
  by (auto simp: getFromCache_def Let_def
      split: http_outcome.splits json.splits option.splits if_splits)

lemma saveToCache_sent:
  "fst (saveToCache h cu n c) = [Http (HttpRequest POST cu (CacheEntry (toString n) (toString c)))]"
  by (simp add: saveToCache_def Let_def)

lemma deferTask_sent:
  "fst (deferTask h du n) =
     [Http (HttpRequest POST (du @ ''/'' @ UUID h) (DeferredTask (toString n)))]"
  by (simp add: deferTask_def Let_def)

lemma deferTask_resolves: "snd (deferTask h du n) = Inr t \<Longrightarrow> t = UUID h"
  by (auto simp: deferTask_def Let_def split: http_outcome.splits if_splits)

lemma lookup_hit:
  assumes "snd (getFromCache h cu n) = Inr v" "v \<noteq> JBool False"
  shows "lookup h cu du n =
     [Http (HttpRequest GET cu (Qs n)), Callback None (Some (prepareResponse 200 (Complete v)))]"
proof -
  have "truthy v" using assms getFromCache_resolves by blast
  moreover have "getFromCache h cu n = ([Http (HttpRequest GET cu (Qs n))], Inr v)"
    using assms(1) getFromCache_sent [of h cu n] by (cases "getFromCache h cu n") simp
  ultimately show ?thesis by (simp add: lookup_def)
qed

lemma lookup_miss:
  assumes "snd (getFromCache h cu n) = Inr (JBool False)"
  shows "lookup h cu du n = Http (HttpRequest GET cu (Qs n)) # answer h cu du n"
proof -
  have "getFromCache h cu n = ([Http (HttpRequest GET cu (Qs n))], Inr (JBool False))"
    using assms getFromCache_sent [of h cu n] by (cases "getFromCache h cu n") simp
  then show ?thesis by (simp add: lookup_def)
qed

lemma lookup_failed:
  assumes "snd (getFromCache h cu n) = Inl e"
  shows "lookup h cu du n = Http (HttpRequest GET cu (Qs n)) # ConsoleLog e # answer h cu du n"
proof -
  have "getFromCache h cu n = ([Http (HttpRequest GET cu (Qs n))], Inl e)"
    using assms getFromCache_sent [of h cu n] by (cases "getFromCache h cu n") simp
  then show ?thesis by (simp add: lookup_def)
qed

lemma answer_small:
  assumes "n \<le> 43"
  shows "answer h cu du n =
     [ConsoleLog (''Pills =  '' @ toString n), Invoke n,
      ConsoleLog (''permutations =  '' @ toString (getNumberOfPermutations n)),
      Callback None (Some (prepareResponse 200 (Complete (JNum (getNumberOfPermutations n))))),
      Http (HttpRequest POST cu (CacheEntry (toString n) (toString (getNumberOfPermutations n))))]
     @ (case snd (saveToCache h cu n (getNumberOfPermutations n)) of
          Inl e \<Rightarrow> [ConsoleLog e] | Inr cached \<Rightarrow> [])"
  using assms saveToCache_sent [of h cu n "getNumberOfPermutations n"]
  by (cases "saveToCache h cu n (getNumberOfPermutations n)")
     (auto simp: answer_def Let_def split: sum.splits)

lemma answer_large:
  assumes "43 < n"
  shows "answer h cu du n =
     Http (HttpRequest POST (du @ ''/'' @ UUID h) (DeferredTask (toString n))) #
     (case snd (deferTask h du n) of
        Inr taskId \<Rightarrow>
          if taskId \<noteq> []
          then [Callback None (Some (prepareResponse 202 (Deferred (du @ ''/'' @ taskId) taskId)))]
          else []
      | Inl e \<Rightarrow>
          [Callback (Some e) (Some (prepareResponse 500 (InternalError ''Internal Error!'')))])"
  using assms deferTask_sent [of h du n]
  by (cases "deferTask h du n") (auto simp: answer_def split: sum.splits)


lemma callbacks_answer_small:
  assumes "n \<le> 43"
  shows "callbacks (answer h cu du n) =
     [Callback None (Some (prepareResponse 200 (Complete (JNum (getNumberOfPermutations n)))))]"
  by (simp add: answer_small [OF assms] callbacks_def split: sum.splits)

lemma stored_zero_is_miss:
  "Request h (HttpRequest GET cu (Qs n)) = Responded 200 (Parsed (Some (JNum 0))) \<Longrightarrow>
     snd (getFromCache h cu n) = Inr (JBool False)"
  by (simp add: getFromCache_def)

lemma stored_count_is_hit:
  assumes "Request h (HttpRequest GET cu (Qs n)) = Responded 200 (Parsed (Some (JNum c)))"
    and "1 \<le> c"
  shows "snd (getFromCache h cu n) = Inr (JNum c)"
  using assms by (simp add: getFromCache_def)

lemma toString_values:
  "toString 0 = ''0''" "toString 2 = ''2''" "toString 5 = ''5''" "toString 8 = ''8''"
  "toString 43 = ''43''" "toString 44 = ''44''" "toString 48 = ''48''"
  "toString 701408733 = ''701408733''" "toString 1134903170 = ''1134903170''"
  by (simp_all add: toString_def digits.simps)

lemma example_host_simps:
  "cacheUrl (example_host a b c) = Some ''https://cache''"
  "deferUrl (example_host a b c) = Some ''https://defer''"
  "UUID (example_host a b c) = ''6c84fb90-12c4-11e1-840d-7b25c5ee775a''"
  "Request (example_host a b c) (HttpRequest GET u (Qs n)) = a"
  "Request (example_host a b c) (HttpRequest POST u (CacheEntry k v)) = b"
  "Request (example_host a b c) (HttpRequest POST u (DeferredTask k)) = c"
  "Request (example_host a b c) (HttpRequest PUT u p) = c"
  by (simp_all add: example_host_def split: payload.splits)

lemma example_asks:
  "asks (example_host a b c) (example_event ''0'') 0"
  "asks (example_host a b c) (example_event ''5'') 5"
  "asks (example_host a b c) (example_event ''43'') 43"
  "asks (example_host a b c) (example_event ''44'') 44"
  "asks (example_host a b c) (example_event ''48'') 48"
  by (simp_all add: asks_def example_event_def example_host_def decimal_def)

section \<open>The claims about the request handler\<close>

text \<open>
  C4. For every requested total outside the range from 1 to 47 the handler answers with
  status 400 and does nothing else: the callback with that response is its only effect, so
  it computes no count, sends no request to the cache and creates no task. The two
  environment variables are taken as set; without them the handler ends before it reads the
  request.
\<close>

theorem invalid_total_rejected:
  assumes "cacheUrl h = Some cu" "cu \<noteq> []" "deferUrl h = Some du" "du \<noteq> []"
    and "asks h ev n" "n < 1 \<or> 47 < n"
  shows "\<exists>msg. handler h ev = [Callback None (Some (prepareResponse 400 (Failure msg)))]"
  using handler_invalid [OF assms] by (auto simp: missing_pills_def out_of_range_def)

theorem invalid_total_rejected_witness:
  "asks (example_host ok ok ok) (example_event ''0'') 0 \<and> ((0::int) < 1 \<or> (47::int) < 0) \<and>
   (\<exists>msg. handler (example_host ok ok ok) (example_event ''0'') =
      [Callback None (Some (prepareResponse 400 (Failure msg)))]) \<and>
   asks (example_host ok ok ok) (example_event ''48'') 48 \<and> ((48::int) < 1 \<or> (47::int) < 48) \<and>
   (\<exists>msg. handler (example_host ok ok ok) (example_event ''48'') =
      [Callback None (Some (prepareResponse 400 (Failure msg)))])"
  using invalid_total_rejected [of "example_host ok ok ok" "''https://cache''" "''https://defer''"
      "example_event ''0''" 0]
    invalid_total_rejected [of "example_host ok ok ok" "''https://cache''" "''https://defer''"
      "example_event ''48''" 48]
  by (simp add: example_host_simps example_asks)

text \<open>
  C5. For every total from 1 to 47, if the cache lookup resolves to a stored value (anything
  but \<^verbatim>\<open>false\<close>), the handler answers with status 200 and exactly that value, and its
  only other effect is the lookup itself: the Counter is not called.
\<close>

theorem cache_hit_returned:
  assumes "cacheUrl h = Some cu" "cu \<noteq> []" "deferUrl h = Some du" "du \<noteq> []"
    and "asks h ev n" "1 \<le> n" "n \<le> 47"
    and "snd (getFromCache h cu n) = Inr v" "v \<noteq> JBool False"
  shows "handler h ev =
           [Http (HttpRequest GET cu (Qs n)),
            Callback None (Some (prepareResponse 200 (Complete v)))] \<and>
         (\<forall>m. Invoke m \<notin> set (handler h ev))"
  using handler_valid [OF assms(1-7)] lookup_hit [OF assms(8,9), of du] by simp

theorem cache_hit_returned_witness:
  "asks (example_host (Responded 200 (Parsed (Some (JNum 8)))) ok ok) (example_event ''5'') 5 \<and>
   snd (getFromCache (example_host (Responded 200 (Parsed (Some (JNum 8)))) ok ok)
          ''https://cache'' 5) = Inr (JNum 8) \<and>
   handler (example_host (Responded 200 (Parsed (Some (JNum 8)))) ok ok) (example_event ''5'') =
     [Http (HttpRequest GET ''https://cache'' (Qs 5)),
      Callback None (Some (prepareResponse 200 (Complete (JNum 8))))]"
  using cache_hit_returned [of "example_host (Responded 200 (Parsed (Some (JNum 8)))) ok ok"
      "''https://cache''" "''https://defer''" "example_event ''5''" 5 "JNum 8"]
  by (simp add: example_host_simps example_asks getFromCache_def)

text \<open>
  C6. For every total from 1 to 43 a failure of the cache never reaches the caller. When
  the lookup rejects, the handler logs the message and goes on exactly as after a miss; in
  both cases the only callback is the response with status 200 and the computed count,
  whatever happens to the cache entry written afterwards; and when that write rejects, the
  message is logged as the handler's last effect.
\<close>

theorem cache_failure_invisible:
  assumes "cacheUrl h = Some cu" "cu \<noteq> []" "deferUrl h = Some du" "du \<noteq> []"
    and "asks h ev n" "1 \<le> n" "n \<le> 43"
    and "snd (getFromCache h cu n) = Inl e \<or> snd (getFromCache h cu n) = Inr (JBool False)"
  shows "handler h ev =
           Http (HttpRequest GET cu (Qs n)) #
           (case snd (getFromCache h cu n) of Inl e \<Rightarrow> [ConsoleLog e] | Inr v \<Rightarrow> []) @
           answer h cu du n \<and>
         callbacks (handler h ev) =
           [Callback None (Some (prepareResponse 200
              (Complete (JNum (getNumberOfPermutations n)))))] \<and>
         (\<forall>e'. snd (saveToCache h cu n (getNumberOfPermutations n)) = Inl e' \<longrightarrow>
            last (handler h ev) = ConsoleLog e')"
proof -
  have valid: "handler h ev = lookup h cu du n"
    using assms(1-6) \<open>n \<le> 43\<close> by (intro handler_valid) simp_all
  have small: "callbacks (answer h cu du n) =
      [Callback None (Some (prepareResponse 200 (Complete (JNum (getNumberOfPermutations n)))))]"
    using \<open>n \<le> 43\<close> by (rule callbacks_answer_small)
  have logged: "last (answer h cu du n) = ConsoleLog e'"
    if "snd (saveToCache h cu n (getNumberOfPermutations n)) = Inl e'" for e'
    using that by (simp add: answer_small [OF \<open>n \<le> 43\<close>])
  have nonempty: "answer h cu du n \<noteq> []"
    by (simp add: answer_small [OF \<open>n \<le> 43\<close>])
  from assms(8) show ?thesis
  proof
    assume failed: "snd (getFromCache h cu n) = Inl e"
    then have "handler h ev =
        Http (HttpRequest GET cu (Qs n)) # ConsoleLog e # answer h cu du n"
      using valid lookup_failed by simp
    then show ?thesis
      using failed small logged nonempty by (simp add: callbacks_def)
  next
    assume miss: "snd (getFromCache h cu n) = Inr (JBool False)"
    then have "handler h ev = Http (HttpRequest GET cu (Qs n)) # answer h cu du n"
      using valid lookup_miss by simp
    then show ?thesis
      using miss small logged nonempty by (simp add: callbacks_def)
  qed
qed


theorem cache_failure_invisible_witness:
  "asks (example_host (Failed ''ETIMEDOUT'') (Failed ''ETIMEDOUT'') ok) (example_event ''5'') 5 \<and>
   snd (getFromCache (example_host (Failed ''ETIMEDOUT'') (Failed ''ETIMEDOUT'') ok)
          ''https://cache'' 5) =
     Inl ''Error: Internal Error Making GET Request to Cache Service - ETIMEDOUT'' \<and>
   snd (saveToCache (example_host (Failed ''ETIMEDOUT'') (Failed ''ETIMEDOUT'') ok)
          ''https://cache'' 5 8) =
     Inl ''Error: Internal Error Making POST Request to Cache Service - ETIMEDOUT'' \<and>
   callbacks (handler (example_host (Failed ''ETIMEDOUT'') (Failed ''ETIMEDOUT'') ok)
                (example_event ''5'')) =
     [Callback None (Some (prepareResponse 200 (Complete (JNum 8))))] \<and>
   last (handler (example_host (Failed ''ETIMEDOUT'') (Failed ''ETIMEDOUT'') ok)
           (example_event ''5'')) =
     ConsoleLog ''Error: Internal Error Making POST Request to Cache Service - ETIMEDOUT''"
proof -
  let ?h = "example_host (Failed ''ETIMEDOUT'') (Failed ''ETIMEDOUT'') ok"
  let ?e = "''Error: Internal Error Making GET Request to Cache Service - ETIMEDOUT''"
  have asked: "asks ?h (example_event ''5'') 5"
    by (rule example_asks)
  have get: "snd (getFromCache ?h ''https://cache'' 5) = Inl ?e"
    by (simp add: getFromCache_def example_host_simps)
  have put: "snd (saveToCache ?h ''https://cache'' 5 8) =
      Inl ''Error: Internal Error Making POST Request to Cache Service - ETIMEDOUT''"
    by (simp add: saveToCache_def example_host_simps)
  have full: "handler ?h (example_event ''5'') =
          Http (HttpRequest GET ''https://cache'' (Qs 5)) #
          (case snd (getFromCache ?h ''https://cache'' 5) of
             Inl e \<Rightarrow> [ConsoleLog e] | Inr v \<Rightarrow> []) @
          answer ?h ''https://cache'' ''https://defer'' 5 \<and>
        callbacks (handler ?h (example_event ''5'')) =
          [Callback None (Some (prepareResponse 200
             (Complete (JNum (getNumberOfPermutations 5)))))] \<and>
        (\<forall>e'. snd (saveToCache ?h ''https://cache'' 5 (getNumberOfPermutations 5)) = Inl e' \<longrightarrow>
           last (handler ?h (example_event ''5'')) = ConsoleLog e')"
    by (rule cache_failure_invisible [of ?h "''https://cache''" "''https://defer''"
          "example_event ''5''" 5 ?e])
       (simp_all add: example_host_simps asked get)
  note parts = full [unfolded getNumberOfPermutations_values]
  from parts have answered: "callbacks (handler ?h (example_event ''5'')) =
      [Callback None (Some (prepareResponse 200 (Complete (JNum 8))))]"
    by blast
  from parts put have logged: "last (handler ?h (example_event ''5'')) =
      ConsoleLog ''Error: Internal Error Making POST Request to Cache Service - ETIMEDOUT''"
    by blast
  show ?thesis
    using asked get put answered logged by blast
qed

text \<open>
  C7. For every total from 44 to 47, on a cache miss, if the request that creates the
  deferred task rejects, the handler calls the callback with the error and a response of
  status 500.
\<close>

theorem deferral_failure_surfaced:
  assumes "cacheUrl h = Some cu" "cu \<noteq> []" "deferUrl h = Some du" "du \<noteq> []"
    and "asks h ev n" "44 \<le> n" "n \<le> 47"
    and "snd (getFromCache h cu n) = Inr (JBool False)"
    and "snd (deferTask h du n) = Inl e"
  shows "handler h ev =
           [Http (HttpRequest GET cu (Qs n)),
            Http (HttpRequest POST (du @ ''/'' @ UUID h) (DeferredTask (toString n))),
            Callback (Some e) (Some (prepareResponse 500 (InternalError ''Internal Error!'')))]"
proof -
  have "handler h ev = lookup h cu du n"
    using assms(1-5,7) \<open>44 \<le> n\<close> by (intro handler_valid) simp_all
  moreover have "43 < n" using \<open>44 \<le> n\<close> by simp
  ultimately show ?thesis
    using assms(8,9) by (simp add: lookup_miss answer_large)
qed

theorem deferral_failure_surfaced_witness:
  "asks (example_host ok ok (Responded 503 (Parsed None))) (example_event ''44'') 44 \<and>
   snd (getFromCache (example_host ok ok (Responded 503 (Parsed None))) ''https://cache'' 44) =
     Inr (JBool False) \<and>
   snd (deferTask (example_host ok ok (Responded 503 (Parsed None))) ''https://defer'' 44) =
     Inl ''Error: POST Request to Defer Service Failed - [object Object]'' \<and>
   handler (example_host ok ok (Responded 503 (Parsed None))) (example_event ''44'') =
     [Http (HttpRequest GET ''https://cache'' (Qs 44)),
      Http (HttpRequest POST ''https://defer/6c84fb90-12c4-11e1-840d-7b25c5ee775a''
              (DeferredTask ''44'')),
      Callback (Some ''Error: POST Request to Defer Service Failed - [object Object]'')
        (Some (prepareResponse 500 (InternalError ''Internal Error!'')))]"
  using deferral_failure_surfaced [of "example_host ok ok (Responded 503 (Parsed None))"
      "''https://cache''" "''https://defer''" "example_event ''44''" 44
      "''Error: POST Request to Defer Service Failed - [object Object]''"]
  by (simp add: example_host_simps example_asks getFromCache_def deferTask_def ok_def
      toString_values)

text \<open>
  C3, amended. On a cache miss, for every total from 1 to 43 the handler calls the Counter
  and its only callback is the response with status 200 and the computed count; for every
  total from 44 to 47, when the request that creates the deferred task succeeds and the
  generated identifier is not empty, the handler computes nothing, and its only callback is
  the response with status 202 carrying that identifier.
\<close>

theorem threshold:
  assumes "cacheUrl h = Some cu" "cu \<noteq> []" "deferUrl h = Some du" "du \<noteq> []"
    and "asks h ev n" "1 \<le> n" "n \<le> 47"
    and "snd (getFromCache h cu n) = Inr (JBool False)"
  shows "(n \<le> 43 \<longrightarrow>
            callbacks (handler h ev) =
              [Callback None (Some (prepareResponse 200
                 (Complete (JNum (getNumberOfPermutations n)))))] \<and>
            Invoke n \<in> set (handler h ev)) \<and>
         (44 \<le> n \<and> snd (deferTask h du n) = Inr t \<and> UUID h \<noteq> [] \<longrightarrow>
            handler h ev =
              [Http (HttpRequest GET cu (Qs n)),
               Http (HttpRequest POST (du @ ''/'' @ UUID h) (DeferredTask (toString n))),
               Callback None (Some (prepareResponse 202
                 (Deferred (du @ ''/'' @ UUID h) (UUID h))))] \<and>
            (\<forall>m. Invoke m \<notin> set (handler h ev)))"
proof -
  have valid: "handler h ev = Http (HttpRequest GET cu (Qs n)) # answer h cu du n"
    using handler_valid [OF assms(1-7)] lookup_miss [OF assms(8)] by simp
  have small: ?thesis if "n \<le> 43"
    using that valid callbacks_answer_small [OF that, of h cu du]
    by (simp add: callbacks_def answer_small)
  have large: ?thesis if "43 < n"
    using that valid deferTask_resolves [of h du n t]
    by (auto simp: answer_large)
  show ?thesis
  proof (cases "n \<le> 43")
    case True
    then show ?thesis by (rule small)
  next
    case False
    then have "43 < n" by simp
    then show ?thesis by (rule large)
  qed
qed

theorem threshold_witness:
  "asks (example_host ok ok ok) (example_event ''43'') 43 \<and>
   snd (getFromCache (example_host ok ok ok) ''https://cache'' 43) = Inr (JBool False) \<and>
   callbacks (handler (example_host ok ok ok) (example_event ''43'')) =
     [Callback None (Some (prepareResponse 200 (Complete (JNum 701408733))))] \<and>
   asks (example_host ok ok ok) (example_event ''44'') 44 \<and>
   snd (getFromCache (example_host ok ok ok) ''https://cache'' 44) = Inr (JBool False) \<and>
   snd (deferTask (example_host ok ok ok) ''https://defer'' 44) =
     Inr ''6c84fb90-12c4-11e1-840d-7b25c5ee775a'' \<and>
   handler (example_host ok ok ok) (example_event ''44'') =
     [Http (HttpRequest GET ''https://cache'' (Qs 44)),
      Http (HttpRequest POST ''https://defer/6c84fb90-12c4-11e1-840d-7b25c5ee775a''
              (DeferredTask ''44'')),
      Callback None (Some (prepareResponse 202
        (Deferred ''https://defer/6c84fb90-12c4-11e1-840d-7b25c5ee775a''
           ''6c84fb90-12c4-11e1-840d-7b25c5ee775a'')))]"
  using threshold [of "example_host ok ok ok" "''https://cache''" "''https://defer''"
      "example_event ''43''" 43 "''6c84fb90-12c4-11e1-840d-7b25c5ee775a''"]
    threshold [of "example_host ok ok ok" "''https://cache''" "''https://defer''"
      "example_event ''44''" 44 "''6c84fb90-12c4-11e1-840d-7b25c5ee775a''"]
  by (simp add: example_host_simps example_asks getFromCache_def deferTask_def ok_def Let_def
      getNumberOfPermutations_values toString_values)

text \<open>
  C3 as stated promises the deferred answer for every total from 44 to 47 on a cache miss.
  With a task service that cannot be reached the handler, asked for 44 pills on a cache
  miss, answers with the error and status 500.
\<close>

theorem threshold_counterexample:
  "asks (example_host ok ok (Failed ''ECONNREFUSED'')) (example_event ''44'') 44 \<and>
   snd (getFromCache (example_host ok ok (Failed ''ECONNREFUSED'')) ''https://cache'' 44) =
     Inr (JBool False) \<and>
   handler (example_host ok ok (Failed ''ECONNREFUSED'')) (example_event ''44'') =
     [Http (HttpRequest GET ''https://cache'' (Qs 44)),
      Http (HttpRequest POST ''https://defer/6c84fb90-12c4-11e1-840d-7b25c5ee775a''
              (DeferredTask ''44'')),
      Callback (Some ''Error: Internal Error Making POST Request to Defer Service - ECONNREFUSED'')
        (Some (prepareResponse 500 (InternalError ''Internal Error!'')))]"
proof -
  let ?h = "example_host ok ok (Failed ''ECONNREFUSED'')"
  have miss: "snd (getFromCache ?h ''https://cache'' 44) = Inr (JBool False)"
    by (simp add: getFromCache_def example_host_simps ok_def)
  have "handler ?h (example_event ''44'') = lookup ?h ''https://cache'' ''https://defer'' 44"
    by (intro handler_valid) (simp_all add: example_host_simps example_asks)
  then show ?thesis
    using miss
    by (simp add: lookup_miss answer_large example_asks deferTask_def example_host_simps
        toString_values)
qed

text \<open>
  C10. For every non-negative \<open>n\<close> the Counter returns at least 1; so when the cache
  answers the lookup for a valid total with the count the Counter computes for it, the
  truth test of the handler takes it as a hit and the handler answers with that count.
\<close>

theorem stored_count_never_missed:
  "(\<forall>n\<ge>0. 1 \<le> getNumberOfPermutations n) \<and>
   (cacheUrl h = Some cu \<and> cu \<noteq> [] \<and> deferUrl h = Some du \<and> du \<noteq> [] \<and>
    asks h ev t \<and> 1 \<le> t \<and> t \<le> 47 \<and>
    Request h (HttpRequest GET cu (Qs t)) =
      Responded 200 (Parsed (Some (JNum (getNumberOfPermutations t)))) \<longrightarrow>
    handler h ev =
      [Http (HttpRequest GET cu (Qs t)),
       Callback None (Some (prepareResponse 200 (Complete (JNum (getNumberOfPermutations t)))))])"
proof (intro conjI impI allI)
  fix n :: int
  assume "0 \<le> n"
  then show "1 \<le> getNumberOfPermutations n" by (rule getNumberOfPermutations_pos)
next
  assume a: "cacheUrl h = Some cu \<and> cu \<noteq> [] \<and> deferUrl h = Some du \<and> du \<noteq> [] \<and>
    asks h ev t \<and> 1 \<le> t \<and> t \<le> 47 \<and>
    Request h (HttpRequest GET cu (Qs t)) =
      Responded 200 (Parsed (Some (JNum (getNumberOfPermutations t))))"
  then have "1 \<le> getNumberOfPermutations t"
    by (intro getNumberOfPermutations_pos) simp
  with a have "snd (getFromCache h cu t) = Inr (JNum (getNumberOfPermutations t))"
    by (intro stored_count_is_hit) simp_all
  moreover have "handler h ev = lookup h cu du t"
    using a by (intro handler_valid) simp_all
  ultimately show "handler h ev =
      [Http (HttpRequest GET cu (Qs t)),
       Callback None (Some (prepareResponse 200 (Complete (JNum (getNumberOfPermutations t)))))]"
    by (simp add: lookup_hit)
qed

theorem stored_count_never_missed_witness:
  "(0::int) \<le> 5 \<and> 1 \<le> getNumberOfPermutations 5 \<and>
   asks (example_host (Responded 200 (Parsed (Some (JNum 8)))) ok ok) (example_event ''5'') 5 \<and>
   Request (example_host (Responded 200 (Parsed (Some (JNum 8)))) ok ok)
     (HttpRequest GET ''https://cache'' (Qs 5)) =
     Responded 200 (Parsed (Some (JNum (getNumberOfPermutations 5)))) \<and>
   handler (example_host (Responded 200 (Parsed (Some (JNum 8)))) ok ok) (example_event ''5'') =
     [Http (HttpRequest GET ''https://cache'' (Qs 5)),
      Callback None (Some (prepareResponse 200 (Complete (JNum 8))))]"
  using stored_count_never_missed [of "example_host (Responded 200 (Parsed (Some (JNum 8)))) ok ok"
      "''https://cache''" "''https://defer''" "example_event ''5''" 5]
  by (simp add: example_host_simps example_asks getNumberOfPermutations_values)

section \<open>Properties of the deferred worker\<close>

lemma findPermutations_str_zero: "findPermutations_str t s sumv c = c"
proof (induction "nat (t + 1 - sumv)" arbitrary: sumv c rule: less_induct)
  case less
  show ?case
  proof (cases "t < sumv")
    case True
    then show ?thesis by (simp add: findPermutations_str.simps)
  next
    case False
    have one: "findPermutations_str t s (sumv + 1) d = d" for d
      using False by (intro less.hyps) simp
    have two: "findPermutations_str t s (sumv + 2) d = d" for d
      using False by (intro less.hyps) simp
    show ?thesis
      using False by (subst findPermutations_str.simps) (simp add: pills_per_day one two)
  qed
qed

lemma getNumberOfPermutations_str_zero:
  "getNumberOfPermutations_str toNumber s = (case toNumber s of None \<Rightarrow> None | Some t \<Rightarrow> Some 0)"
  by (simp add: getNumberOfPermutations_str_def findPermutations_str_zero split: option.splits)

lemma worker_v2_loads: "loads worker_v2_functions"
  by (simp add: loads_def worker_v2_functions_def early_error_def)

lemma worker_v1_rejected: "\<not> loads worker_v1_functions"
  by (simp add: loads_def worker_v1_functions_def early_error_def)

lemma worker_v1_no_effect: "worker_handler_v1 statements ev = ([], [])"
  by (simp add: worker_handler_v1_def worker_v1_rejected)

lemma settled:
  "(case p of (sent, Inr x) \<Rightarrow> sent | (sent, Inl e) \<Rightarrow> sent @ [ConsoleLog e]) =
     fst p @ (case snd p of Inl e \<Rightarrow> [ConsoleLog e] | Inr x \<Rightarrow> [])"
  by (cases p) (simp split: sum.splits)

lemma worker_completes_with_zero:
  assumes "eventName r = ''INSERT''" "toNumber (task_pills r) = Some t"
  shows "processRecord h toNumber cu du r =
     Http (HttpRequest PUT (du @ ''/'' @ task_id r) (TaskUpdate ''IN_PROGRESS'' ''0'')) #
     (case snd (updateTask h du (task_id r) ''IN_PROGRESS'' None) of
        Inl e \<Rightarrow> [ConsoleLog e] | Inr updated \<Rightarrow> []) @
     InvokeOnString (task_pills r) #
     Http (HttpRequest PUT (du @ ''/'' @ task_id r) (TaskUpdate ''COMPLETE'' ''0'')) #
     (case snd (updateTask h du (task_id r) ''COMPLETE'' (Some 0)) of
        Inl e \<Rightarrow> [ConsoleLog e] | Inr updated \<Rightarrow> []) @
     Http (HttpRequest POST cu (CacheEntry (task_pills r) ''0'')) #
     (case snd (worker_saveToCache h cu (task_pills r) 0) of
        Inl e \<Rightarrow> [ConsoleLog e] | Inr cached \<Rightarrow> [])"
proof -
  have zero: "toString 0 = ''0''"
    by (simp add: toString_def digits.simps)
  have a: "fst (updateTask h du (task_id r) ''IN_PROGRESS'' None) =
      [Http (HttpRequest PUT (du @ ''/'' @ task_id r) (TaskUpdate ''IN_PROGRESS'' ''0''))]"
    by (simp add: updateTask_def Let_def)
  have b: "fst (updateTask h du (task_id r) ''COMPLETE'' (Some 0)) =
      [Http (HttpRequest PUT (du @ ''/'' @ task_id r) (TaskUpdate ''COMPLETE'' ''0''))]"
    by (simp add: updateTask_def Let_def)
  have c: "fst (worker_saveToCache h cu (task_pills r) 0) =
      [Http (HttpRequest POST cu (CacheEntry (task_pills r) ''0''))]"
    by (simp add: worker_saveToCache_def Let_def zero)
  have count: "getNumberOfPermutations_str toNumber (task_pills r) = Some 0"
    using assms(2) by (simp add: getNumberOfPermutations_str_zero)
  show ?thesis
    unfolding processRecord_def count settled
    using assms(1) by (simp add: a b c)
qed

section \<open>The claim about the deferred worker\<close>

text \<open>
  C2. Every notification of a created task should lead the worker to mark the task of that
  identifier as complete with the count of its total, and to write the total and the count
  to the cache. Given the creation of task \<^verbatim>\<open>task-1\<close> with \<^verbatim>\<open>"44"\<close> in the attribute
  \<^verbatim>\<open>N\<close>, the second version of the worker marks the task complete with the count 0 and
  writes 0 to the cache, where the Counter of the request handler gives 1134903170 for 44;
  and the first version is refused when its file is loaded, so that an invocation of it,
  whatever its statements would do, has no effect at all.
\<close>

theorem worker_insert_44:
  "worker_handler (example_host ok ok ok) decimal
     \<lparr>Records = [\<lparr>eventName = ''INSERT'', task_id = ''task-1'', task_pills = ''44''\<rparr>]\<rparr> =
     ([[Http (HttpRequest PUT ''https://defer/task-1'' (TaskUpdate ''IN_PROGRESS'' ''0'')),
        InvokeOnString ''44'',
        Http (HttpRequest PUT ''https://defer/task-1'' (TaskUpdate ''COMPLETE'' ''0'')),
        Http (HttpRequest POST ''https://cache'' (CacheEntry ''44'' ''0''))]],
      [Callback None None]) \<and>
   getNumberOfPermutations_str decimal ''44'' = Some 0 \<and>
   getNumberOfPermutations 44 = 1134903170 \<and>
   \<not> loads worker_v1_functions \<and>
   worker_handler_v1 statements
     \<lparr>Records = [\<lparr>eventName = ''INSERT'', task_id = ''task-1'', task_pills = ''44''\<rparr>]\<rparr> =
     ([], [])"
proof -
  let ?r = "\<lparr>eventName = ''INSERT'', task_id = ''task-1'', task_pills = ''44''\<rparr>"
  have n: "decimal ''44'' = Some 44"
    by (simp add: decimal_def)
  have "processRecord (example_host ok ok ok) decimal ''https://cache'' ''https://defer'' ?r =
      [Http (HttpRequest PUT ''https://defer/task-1'' (TaskUpdate ''IN_PROGRESS'' ''0'')),
       InvokeOnString ''44'',
       Http (HttpRequest PUT ''https://defer/task-1'' (TaskUpdate ''COMPLETE'' ''0'')),
       Http (HttpRequest POST ''https://cache'' (CacheEntry ''44'' ''0''))]"
    using n
    by (simp add: worker_completes_with_zero [where t = 44] updateTask_def
        worker_saveToCache_def example_host_simps ok_def)
  moreover have "processed decimal ?r"
    by (simp add: processed_def getNumberOfPermutations_str_zero n)
  ultimately show ?thesis
    by (simp add: worker_handler_def example_host_simps getNumberOfPermutations_str_zero n
        getNumberOfPermutations_values worker_v1_rejected worker_v1_no_effect)
qed

end
